theory Spec2Isabelle
  imports Complex_Main
begin

section \<open>JavaScript values\<close>

text \<open>
  The Health view is a TypeScript module; its data arrives from \<open>useQuery\<close> as parsed
  JSON. A JavaScript \<open>number\<close> is a finite value, one of the two infinities, or NaN.
  Finite doubles are modelled by the reals they denote: the code only compares numbers
  with the exactly representable thresholds 50, 100, 150, 200 and 300.
\<close>

datatype number = Fin real | PosInf | NegInf | NaN

text \<open>The relational operator \<open>a <= b\<close> on numbers: false as soon as one side is NaN.\<close>

fun num_le :: "number \<Rightarrow> number \<Rightarrow> bool" where
  "num_le NaN _ = False"
| "num_le _ NaN = False"
| "num_le NegInf _ = True"
| "num_le _ PosInf = True"
| "num_le (Fin a) (Fin b) = (a \<le> b)"
| "num_le PosInf _ = False"
| "num_le (Fin a) NegInf = False"

text \<open>
  A value as \<open>JSON.parse\<close> or an object literal produces it. An object is the list of its
  own properties in insertion order (keys distinct); an array is the list of its elements.
\<close>

datatype jsval =
    Undefined
  | Null
  | Bool bool
  | Num number
  | Str string
  | Arr "jsval list"
  | Obj "(string \<times> jsval) list"

datatype js_error = TypeError

text \<open>ToBoolean: what \<open>!v\<close>, \<open>v || w\<close> and \<open>v ? a : b\<close> test.\<close>

fun truthy :: "jsval \<Rightarrow> bool" where
  "truthy Undefined = False"
| "truthy Null = False"
| "truthy (Bool b) = b"
| "truthy (Num (Fin x)) = (x \<noteq> 0)"
| "truthy (Num NaN) = False"
| "truthy (Num _) = True"
| "truthy (Str s) = (s \<noteq> [])"
| "truthy (Arr _) = True"
| "truthy (Obj _) = True"

text \<open>The operator \<open>a || b\<close>.\<close>

definition js_or :: "jsval \<Rightarrow> jsval \<Rightarrow> jsval" where
  "js_or a b = (if truthy a then a else b)"

text \<open>
  The member access \<open>v.k\<close> for a named key \<open>k\<close>. Reading a property of \<open>undefined\<close> or
  \<open>null\<close> throws a TypeError; an object without the key, and every primitive or array
  (none of the keys the view reads is a built-in property), gives \<open>undefined\<close>.
\<close>

fun get_prop :: "jsval \<Rightarrow> string \<Rightarrow> js_error + jsval" where
  "get_prop Undefined k = Inl TypeError"
| "get_prop Null k = Inl TypeError"
| "get_prop (Obj kvs) k = (case map_of kvs k of None \<Rightarrow> Inr Undefined | Some v \<Rightarrow> Inr v)"
| "get_prop _ k = Inr Undefined"

text \<open>The decimal numeral of an array index, the property key that \<open>v[i]\<close> looks up.\<close>

fun index_key :: "nat \<Rightarrow> string" where
  "index_key n =
     (if n < 10 then [char_of (48 + n)]
      else index_key (n div 10) @ [char_of (48 + n mod 10)])"

declare index_key.simps [simp del]

text \<open>The element \<open>xs[i]\<close> of an array: past the end it is \<open>undefined\<close>, not an error.\<close>

definition array_read :: "jsval list \<Rightarrow> nat \<Rightarrow> jsval" where
  "array_read xs i = (if i < length xs then xs ! i else Undefined)"

text \<open>
  The indexed access \<open>v[i]\<close> for an array index \<open>i\<close>. It throws on \<open>undefined\<close> and
  \<open>null\<close> only. A string yields its character at \<open>i\<close>; an object is looked up at the key
  \<open>index_key i\<close>.
\<close>

fun get_index :: "jsval \<Rightarrow> nat \<Rightarrow> js_error + jsval" where
  "get_index Undefined i = Inl TypeError"
| "get_index Null i = Inl TypeError"
| "get_index (Arr xs) i = Inr (array_read xs i)"
| "get_index (Str s) i = (if i < length s then Inr (Str [s ! i]) else Inr Undefined)"
| "get_index (Obj kvs) i =
     (case map_of kvs (index_key i) of None \<Rightarrow> Inr Undefined | Some v \<Rightarrow> Inr v)"
| "get_index _ i = Inr Undefined"

text \<open>Sequencing of evaluations that may throw: the first exception ends the evaluation.\<close>

fun bindE :: "js_error + 'a \<Rightarrow> ('a \<Rightarrow> js_error + 'b) \<Rightarrow> js_error + 'b" where
  "bindE (Inl e) f = Inl e"
| "bindE (Inr v) f = f v"

section \<open>The AQI classifier\<close>

record AqiCategory =
  label :: string
  color :: string
  progressColor :: string

definition getAQICategory :: "number \<Rightarrow> AqiCategory" where
  "getAQICategory aqi =
    (if num_le aqi (Fin 50) then
       \<lparr>label = ''Good'', color = ''bg-green-100 text-green-800'',
        progressColor = ''bg-green-500''\<rparr>
     else if num_le aqi (Fin 100) then
       \<lparr>label = ''Moderate'', color = ''bg-yellow-100 text-yellow-800'',
        progressColor = ''bg-yellow-500''\<rparr>
     else if num_le aqi (Fin 150) then
       \<lparr>label = ''Unhealthy for Sensitive Groups'', color = ''bg-orange-100 text-orange-800'',
        progressColor = ''bg-orange-500''\<rparr>
     else if num_le aqi (Fin 200) then
       \<lparr>label = ''Unhealthy'', color = ''bg-red-100 text-red-800'',
        progressColor = ''bg-red-500''\<rparr>
     else if num_le aqi (Fin 300) then
       \<lparr>label = ''Very Unhealthy'', color = ''bg-purple-100 text-purple-800'',
        progressColor = ''bg-purple-500''\<rparr>
     else
       \<lparr>label = ''Hazardous'', color = ''bg-rose-100 text-rose-800'',
        progressColor = ''bg-rose-800''\<rparr>)"

text \<open>An \<open>AqiCategory\<close> stored as a property value is the object with its three fields.\<close>

definition AqiCategory_obj :: "AqiCategory \<Rightarrow> jsval" where
  "AqiCategory_obj c =
     Obj [(''label'', Str (label c)), (''color'', Str (color c)),
          (''progressColor'', Str (progressColor c))]"

section \<open>Clock, time zone and random numbers\<close>

text \<open>
  The fallback generator reads the system clock and \<open>Math.random\<close>. Both are made
  explicit: \<open>clock k\<close> is the time value (milliseconds since the epoch) that the \<open>k\<close>-th
  evaluation of \<open>new Date()\<close> returns, \<open>random k\<close> the \<open>k\<close>-th result of \<open>Math.random()\<close>,
  \<open>tza t isUTC\<close> the offset of the local time zone at \<open>t\<close> (ECMAScript's LocalTZA), and
  \<open>toISOString\<close> the rendering of a time value as an ISO string.
\<close>

record env =
  clock :: "nat \<Rightarrow> int"
  random :: "nat \<Rightarrow> real"
  tza :: "int \<Rightarrow> bool \<Rightarrow> int"
  toISOString :: "int \<Rightarrow> string"

definition msPerHour :: int where "msPerHour = 3600000"
definition msPerDay :: int where "msPerDay = 86400000"

definition LocalTime :: "(int \<Rightarrow> bool \<Rightarrow> int) \<Rightarrow> int \<Rightarrow> int" where
  "LocalTime z t = t + z t True"

definition UTC :: "(int \<Rightarrow> bool \<Rightarrow> int) \<Rightarrow> int \<Rightarrow> int" where
  "UTC z t = t - z t False"

definition Day :: "int \<Rightarrow> int" where "Day t = t div msPerDay"
definition HourFromTime :: "int \<Rightarrow> int" where "HourFromTime t = (t div msPerHour) mod 24"
definition MinFromTime :: "int \<Rightarrow> int" where "MinFromTime t = (t div 60000) mod 60"
definition SecFromTime :: "int \<Rightarrow> int" where "SecFromTime t = (t div 1000) mod 60"
definition msFromTime :: "int \<Rightarrow> int" where "msFromTime t = t mod 1000"

definition MakeTime :: "int \<Rightarrow> int \<Rightarrow> int \<Rightarrow> int \<Rightarrow> int" where
  "MakeTime h m s ms = h * msPerHour + m * 60000 + s * 1000 + ms"

definition MakeDate :: "int \<Rightarrow> int \<Rightarrow> int" where
  "MakeDate day time = day * msPerDay + time"

text \<open>\<open>date.getHours()\<close>: the hour of the local time.\<close>

definition Date_getHours :: "(int \<Rightarrow> bool \<Rightarrow> int) \<Rightarrow> int \<Rightarrow> int" where
  "Date_getHours z t = HourFromTime (LocalTime z t)"

text \<open>
  \<open>date.setHours(h)\<close>: the local time with its hour field replaced by \<open>h\<close> (an hour of 24
  or more carries into the following days), converted back to a time value. All time
  values stay far inside the range of \<open>Date\<close>.
\<close>

definition Date_setHours :: "(int \<Rightarrow> bool \<Rightarrow> int) \<Rightarrow> int \<Rightarrow> int \<Rightarrow> int" where
  "Date_setHours z t h =
     (let lt = LocalTime z t
      in UTC z (MakeDate (Day lt) (MakeTime h (MinFromTime lt) (SecFromTime lt) (msFromTime lt))))"

text \<open>\<open>Math.round\<close> of a finite value: the nearest integer, a tie going up.\<close>

definition Math_round :: "real \<Rightarrow> number" where
  "Math_round x = Fin (of_int \<lfloor>x + 1 / 2\<rfloor>)"

section \<open>The fallback data generator\<close>

text \<open>
  The time values behind the 24 timestamps of a fallback hourly block. The callback of
  \<open>Array.from({ length: 24 }, ...)\<close> runs once per index \<open>i\<close>, and each run reads the clock
  anew; \<open>k0\<close> counts the clock reads made before the block.
\<close>

definition fallbackHourlyTime :: "env \<Rightarrow> nat \<Rightarrow> int list" where
  "fallbackHourlyTime e k0 =
     map (\<lambda>i. let date = clock e (k0 + i)
              in Date_setHours (tza e) date (Date_getHours (tza e) date + int i)) [0..<24]"

text \<open>A series of 24 draws \<open>Math.round(base + Math.random() * spread)\<close>, after \<open>r0\<close> earlier draws.\<close>

definition fallbackSeries :: "env \<Rightarrow> nat \<Rightarrow> real \<Rightarrow> real \<Rightarrow> jsval list" where
  "fallbackSeries e r0 base spread =
     map (\<lambda>i. Num (Math_round (base + random e (r0 + i) * spread))) [0..<24]"

definition fallbackAirQualityData :: "env \<Rightarrow> jsval" where
  "fallbackAirQualityData e =
     Obj [(''current'',
            Obj [(''pm2_5'', Num (Fin 25)), (''pm10'', Num (Fin 40)), (''no2'', Num (Fin 15)),
                 (''o3'', Num (Fin 30)), (''so2'', Num (Fin 8)), (''co'', Num (Fin 4)),
                 (''aqi'', Num (Fin 85)),
                 (''aqiCategory'', AqiCategory_obj (getAQICategory (Fin 85)))]),
          (''hourly'',
            Obj [(''time'', Arr (map (\<lambda>t. Str (toISOString e t)) (fallbackHourlyTime e 0))),
                 (''pm2_5'', Arr (fallbackSeries e 0 20 10)),
                 (''pm10'', Arr (fallbackSeries e 24 35 15)),
                 (''aqi'', Arr (fallbackSeries e 48 75 20))])]"

text \<open>\<open>const effectiveAirQualityData = airQualityData || fallbackAirQualityData\<close>\<close>

definition effectiveAirQualityData :: "env \<Rightarrow> jsval \<Rightarrow> jsval" where
  "effectiveAirQualityData e airQualityData = js_or airQualityData (fallbackAirQualityData e)"

definition fallbackHealthRecommendationsData :: jsval where
  "fallbackHealthRecommendationsData =
     Obj [(''temperature'',
            Obj [(''current'', Num (Fin 28)), (''isHot'', Bool True), (''isCold'', Bool False),
                 (''recommendations'',
                   Arr [Str ''Stay hydrated by drinking plenty of water throughout the day.'',
                        Str ''Wear lightweight, loose-fitting clothing when outdoors.'',
                        Str ''Use fans or air conditioning to stay cool indoors.''])]),
          (''uv'',
            Obj [(''index'', Num (Fin 7)), (''category'', Str ''High''),
                 (''recommendations'',
                   Arr [Str ''Apply SPF 30+ sunscreen when outdoors.'',
                        Str ''Wear sunglasses and a wide-brimmed hat for additional protection.'',
                        Str ''Seek shade during peak UV hours (10am-4pm).''])]),
          (''airQuality'',
            Obj [(''aqi'', Num (Fin 85)),
                 (''category'', AqiCategory_obj (getAQICategory (Fin 85))),
                 (''recommendations'',
                   Arr [Str ''Consider limiting prolonged outdoor activities if you have respiratory conditions.'',
                        Str ''Keep windows closed during periods of high pollution.'',
                        Str ''Use air purifiers indoors if available.''])])]"

definition fallbackPollenData :: jsval where
  "fallbackPollenData =
     Obj [(''grass'', Obj [(''level'', Num (Fin 2)), (''category'', Str ''Moderate'')]),
          (''tree'', Obj [(''level'', Num (Fin 3)), (''category'', Str ''High'')]),
          (''weed'', Obj [(''level'', Num (Fin 1)), (''category'', Str ''Low'')]),
          (''mold'', Obj [(''level'', Num (Fin 2)), (''category'', Str ''Moderate'')])]"

text \<open>
  The forecast fallback is built after the air-quality fallback in the same render: 24
  clock reads and 72 random draws precede it.
\<close>

definition fallbackAqiForecastData :: "env \<Rightarrow> jsval" where
  "fallbackAqiForecastData e =
     Obj [(''hourly'',
            Obj [(''time'', Arr (map (\<lambda>t. Str (toISOString e t)) (fallbackHourlyTime e 24))),
                 (''european_aqi'', Arr (fallbackSeries e 72 75 20))])]"

definition effectiveHealthRecommendationsData :: "jsval \<Rightarrow> jsval" where
  "effectiveHealthRecommendationsData healthRecommendationsData =
     js_or healthRecommendationsData fallbackHealthRecommendationsData"

definition effectivePollenData :: "jsval \<Rightarrow> jsval" where
  "effectivePollenData pollenData = js_or pollenData fallbackPollenData"

definition effectiveAqiForecastData :: "env \<Rightarrow> jsval \<Rightarrow> jsval" where
  "effectiveAqiForecastData e aqiForecastData = js_or aqiForecastData (fallbackAqiForecastData e)"

section \<open>The data shaper\<close>

text \<open>
  \<open>xs.map((x, i) => ...)\<close> with a callback that may throw: the elements are visited in
  order with their indices, and the first exception ends the traversal.
\<close>

fun mapiE :: "('a \<Rightarrow> nat \<Rightarrow> js_error + 'b) \<Rightarrow> nat \<Rightarrow> 'a list \<Rightarrow> js_error + 'b list" where
  "mapiE f i [] = Inr []"
| "mapiE f i (x # xs) =
     bindE (f x i) (\<lambda>y. bindE (mapiE f (Suc i) xs) (\<lambda>ys. Inr (y # ys)))"

text \<open>
  \<open>v.slice(0, 24).map(f)\<close>: only an array has both methods with this meaning. On
  \<open>undefined\<close> or \<open>null\<close> the member access throws; a string is sliced to a string, which
  has no \<open>map\<close>; any other parsed value has no \<open>slice\<close>; calling the missing method throws.
\<close>

fun slice_0_24 :: "jsval \<Rightarrow> js_error + jsval list" where
  "slice_0_24 (Arr xs) = Inr (take 24 xs)"
| "slice_0_24 _ = Inl TypeError"

text \<open>\<open>v.map(f)\<close> needs an array in the same way.\<close>

fun array_of :: "jsval \<Rightarrow> js_error + jsval list" where
  "array_of (Arr xs) = Inr xs"
| "array_of _ = Inl TypeError"

text \<open>\<open>c ? c[i] : undefined\<close> for an optional series \<open>c\<close>.\<close>

definition optional_index :: "jsval \<Rightarrow> nat \<Rightarrow> js_error + jsval" where
  "optional_index c i = (if truthy c then get_index c i else Inr Undefined)"

text \<open>
  \<open>formatAqiForecastData\<close>. The parameter \<open>getHours\<close> stands for
  \<open>new Date(time).getHours()\<close>, the local hour of day that the platform extracts from a
  timestamp (NaN for an invalid date). The result is the array of chart points, each the
  object literal of the callback.
\<close>

definition formatAqiForecastData :: "(jsval \<Rightarrow> number) \<Rightarrow> jsval \<Rightarrow> js_error + jsval list" where
  "formatAqiForecastData getHours data =
     (if \<not> truthy data then Inr []
      else bindE (get_prop data ''hourly'') (\<lambda>hourly.
        if \<not> truthy hourly then Inr []
        else bindE (get_prop hourly ''time'') (\<lambda>times.
          bindE (slice_0_24 times) (\<lambda>ts.
            mapiE (\<lambda>time i.
              bindE (get_prop hourly ''european_aqi'') (\<lambda>european_aqi.
              bindE (get_index european_aqi i) (\<lambda>aqi.
              bindE (get_prop hourly ''pm2_5'') (\<lambda>pm2_5s.
              bindE (optional_index pm2_5s i) (\<lambda>pm2_5.
              bindE (get_prop hourly ''pm10'') (\<lambda>pm10s.
              bindE (optional_index pm10s i) (\<lambda>pm10.
                Inr (Obj [(''name'', Num (getHours time)), (''aqi'', aqi),
                          (''pm2_5'', pm2_5), (''pm10'', pm10)]))))))))
              0 ts))))"

text \<open>
  \<open>formatPollenData\<close>. The parameter \<open>weekday\<close> stands for
  \<open>new Date(date).toLocaleDateString('en-US', { weekday: 'short' })\<close>.
\<close>

definition formatPollenData :: "(jsval \<Rightarrow> string) \<Rightarrow> jsval \<Rightarrow> js_error + jsval list" where
  "formatPollenData weekday data =
     (if \<not> truthy data then Inr []
      else bindE (get_prop data ''daily'') (\<lambda>daily.
        if \<not> truthy daily then Inr []
        else bindE (get_prop daily ''time'') (\<lambda>times.
          bindE (array_of times) (\<lambda>ts.
            mapiE (\<lambda>date i.
              bindE (get_prop daily ''grass_pollen'') (\<lambda>grass_pollen.
              bindE (get_index grass_pollen i) (\<lambda>grass.
              bindE (get_prop daily ''tree_pollen'') (\<lambda>tree_pollen.
              bindE (get_index tree_pollen i) (\<lambda>tree.
              bindE (get_prop daily ''weed_pollen'') (\<lambda>weed_pollen.
              bindE (get_index weed_pollen i) (\<lambda>weed.
                Inr (Obj [(''name'', Str (weekday date)), (''grass'', grass),
                          (''tree'', tree), (''weed'', weed)]))))))))
              0 ts))))"

section \<open>Shapes\<close>

text \<open>
  The keys and nesting of a value: an object is a node with one named child per own
  property, everything else (numbers, strings, arrays) is a leaf.
\<close>

datatype shape = Leaf | Node "(string \<times> shape) list"

primrec shape_of :: "jsval \<Rightarrow> shape" where
  "shape_of Undefined = Leaf"
| "shape_of Null = Leaf"
| "shape_of (Bool b) = Leaf"
| "shape_of (Num n) = Leaf"
| "shape_of (Str s) = Leaf"
| "shape_of (Arr xs) = Leaf"
| "shape_of (Obj kvs) = Node (map (map_prod id shape_of) kvs)"

text \<open>The keys and nesting that \<open>interface PollenData\<close> declares.\<close>

definition PollenData_shape :: shape where
  "PollenData_shape =
     Node [(''daily'',
             Node [(''time'', Leaf), (''grass_pollen'', Leaf), (''tree_pollen'', Leaf),
                   (''weed_pollen'', Leaf)])]"

text \<open>The keys and nesting that \<open>interface AqiForecastData\<close> declares, without its optional series.\<close>

definition AqiForecastData_shape :: shape where
  "AqiForecastData_shape = Node [(''hourly'', Node [(''time'', Leaf), (''european_aqi'', Leaf)])]"

section \<open>The current air quality card\<close>

text \<open>
  The children of a JSX element are arguments of its constructor call, so they are
  evaluated while \<open>Health\<close> runs, whichever tab is selected. In the card "Current Air
  Quality" the branch taken when \<open>airQualityLoading\<close> is false evaluates, in this order,
  the progress colour (line 279), the stroke offset (line 287), the index itself
  (line 292) and the colour and label of the badge (lines 293 and 294), each through
  \<open>airQualityData.current.aqi\<close>. The pollutant rows and the other cards follow and are
  reached only when these reads return.
\<close>

text \<open>\<open>airQualityData.current.aqi\<close>\<close>

definition read_current_aqi :: "jsval \<Rightarrow> js_error + jsval" where
  "read_current_aqi airQualityData =
     bindE (get_prop airQualityData ''current'') (\<lambda>current. get_prop current ''aqi'')"

text \<open>\<open>251.2 * (1 - Math.min(aqi / 300, 1))\<close>\<close>

fun strokeDashoffset :: "number \<Rightarrow> number" where
  "strokeDashoffset (Fin a) = Fin (251.2 * (1 - min (a / 300) 1))"
| "strokeDashoffset PosInf = Fin 0"
| "strokeDashoffset NegInf = PosInf"
| "strokeDashoffset NaN = NaN"

datatype gauge =
    Skeleton
  | Gauge (circleClass: string) (dashoffset: number) (aqiText: jsval)
          (badgeClass: string) (badgeLabel: string)

text \<open>
  ToNumber, the coercion that the operators \<open><=\<close> and \<open>/\<close> apply to their operand. A
  plain object converts to NaN; the parameter \<open>conv\<close> stands for the conversion of
  strings and arrays, which parses their text.
\<close>

fun ToNumber :: "(jsval \<Rightarrow> number) \<Rightarrow> jsval \<Rightarrow> number" where
  "ToNumber conv Undefined = NaN"
| "ToNumber conv Null = Fin 0"
| "ToNumber conv (Bool b) = Fin (if b then 1 else 0)"
| "ToNumber conv (Num n) = n"
| "ToNumber conv (Obj kvs) = NaN"
| "ToNumber conv v = conv v"

definition currentAirQualityGauge :: "(jsval \<Rightarrow> number) \<Rightarrow> jsval \<Rightarrow> bool \<Rightarrow> js_error + gauge" where
  "currentAirQualityGauge conv airQualityData airQualityLoading =
     (if airQualityLoading then Inr Skeleton
      else bindE (read_current_aqi airQualityData) (\<lambda>a1.
           bindE (read_current_aqi airQualityData) (\<lambda>a2.
           bindE (read_current_aqi airQualityData) (\<lambda>a3.
           bindE (read_current_aqi airQualityData) (\<lambda>a4.
           bindE (read_current_aqi airQualityData) (\<lambda>a5.
             Inr (Gauge (progressColor (getAQICategory (ToNumber conv a1)))
                        (strokeDashoffset (ToNumber conv a2))
                        a3
                        (color (getAQICategory (ToNumber conv a4)))
                        (label (getAQICategory (ToNumber conv a5))))))))))"

text \<open>
  The handler \<open>onError\<close> of the air-quality query: it writes one line to the console,
  modelled as the list of the argument lists of \<open>console.error\<close>, and returns.
\<close>

definition airQuality_onError :: "jsval \<Rightarrow> jsval list list \<Rightarrow> jsval list list" where
  "airQuality_onError error console =
     console @ [[Str ''Air quality data fetch error:'', error]]"

text \<open>The options of the air-quality query.\<close>

record query_options =
  queryKey :: "string list"
  enabled :: bool
  retry :: nat
  retryDelay :: nat

definition airQuality_query :: query_options where
  "airQuality_query =
     \<lparr>queryKey = [''/api/weather/air-quality''], enabled = True, retry = 3, retryDelay = 1000\<rparr>"

text \<open>
  The chart points as the specification describes them, for comparison with what the two
  transforms build: the point for index \<open>i\<close> of a forecast with timestamps \<open>ts\<close>, index
  series \<open>es\<close> and optional series \<open>p2\<close> and \<open>p10\<close>, and the point for index \<open>i\<close> of a
  pollen forecast with dates \<open>ts\<close> and series \<open>gs\<close>, \<open>trs\<close> and \<open>ws\<close>.
\<close>

definition forecast_point :: "(jsval \<Rightarrow> number) \<Rightarrow> jsval list \<Rightarrow> jsval list \<Rightarrow> jsval \<Rightarrow> jsval \<Rightarrow> nat \<Rightarrow> jsval" where
  "forecast_point getHours ts es p2 p10 i =
     Obj [(''name'', Num (getHours (ts ! i))), (''aqi'', array_read es i),
          (''pm2_5'', case p2 of Arr ps \<Rightarrow> array_read ps i | _ \<Rightarrow> Undefined),
          (''pm10'', case p10 of Arr ps \<Rightarrow> array_read ps i | _ \<Rightarrow> Undefined)]"

definition pollen_point :: "(jsval \<Rightarrow> string) \<Rightarrow> jsval list \<Rightarrow> jsval list \<Rightarrow> jsval list \<Rightarrow> jsval list \<Rightarrow> nat \<Rightarrow> jsval" where
  "pollen_point weekday ts gs trs ws i =
     Obj [(''name'', Str (weekday (ts ! i))), (''grass'', array_read gs i),
          (''tree'', array_read trs i), (''weed'', array_read ws i)]"



section \<open>Properties of the classifier\<close>

text \<open>
  C2. \<open>getAQICategory\<close> is total: every number falls into exactly one of the six tiers,
  by inclusive ascending thresholds (at most 50 Good, at most 100 Moderate, at most 150
  Unhealthy for Sensitive Groups, at most 200 Unhealthy, at most 300 Very Unhealthy,
  everything above 300 Hazardous, as do positive infinity and NaN), and the result is
  always one of six fixed triples of label, colour and progress colour. The results at
  50 and 51, 100 and 101, 150 and 151, 200 and 201 differ; 300 is Very Unhealthy and 301
  is Hazardous.
\<close>

theorem getAQICategory_tiers:
  "(x \<le> 50 \<longrightarrow> label (getAQICategory (Fin x)) = ''Good'') \<and>
   (50 < x \<and> x \<le> 100 \<longrightarrow> label (getAQICategory (Fin x)) = ''Moderate'') \<and>
   (100 < x \<and> x \<le> 150 \<longrightarrow> label (getAQICategory (Fin x)) = ''Unhealthy for Sensitive Groups'') \<and>
   (150 < x \<and> x \<le> 200 \<longrightarrow> label (getAQICategory (Fin x)) = ''Unhealthy'') \<and>
   (200 < x \<and> x \<le> 300 \<longrightarrow> label (getAQICategory (Fin x)) = ''Very Unhealthy'') \<and>
   (300 < x \<longrightarrow> label (getAQICategory (Fin x)) = ''Hazardous'') \<and>
   label (getAQICategory NegInf) = ''Good'' \<and>
   label (getAQICategory PosInf) = ''Hazardous'' \<and>
   label (getAQICategory NaN) = ''Hazardous'' \<and>
   getAQICategory a \<in>
     {\<lparr>label = ''Good'', color = ''bg-green-100 text-green-800'', progressColor = ''bg-green-500''\<rparr>,
      \<lparr>label = ''Moderate'', color = ''bg-yellow-100 text-yellow-800'', progressColor = ''bg-yellow-500''\<rparr>,
      \<lparr>label = ''Unhealthy for Sensitive Groups'', color = ''bg-orange-100 text-orange-800'',
       progressColor = ''bg-orange-500''\<rparr>,
      \<lparr>label = ''Unhealthy'', color = ''bg-red-100 text-red-800'', progressColor = ''bg-red-500''\<rparr>,
      \<lparr>label = ''Very Unhealthy'', color = ''bg-purple-100 text-purple-800'',
       progressColor = ''bg-purple-500''\<rparr>,
      \<lparr>label = ''Hazardous'', color = ''bg-rose-100 text-rose-800'', progressColor = ''bg-rose-800''\<rparr>} \<and>
   getAQICategory (Fin 50) \<noteq> getAQICategory (Fin 51) \<and>
   getAQICategory (Fin 100) \<noteq> getAQICategory (Fin 101) \<and>
   getAQICategory (Fin 150) \<noteq> getAQICategory (Fin 151) \<and>
   getAQICategory (Fin 200) \<noteq> getAQICategory (Fin 201) \<and>
   label (getAQICategory (Fin 300)) = ''Very Unhealthy'' \<and>
   label (getAQICategory (Fin 301)) = ''Hazardous''"
  by (simp add: getAQICategory_def)

theorem getAQICategory_tiers_witness:
  "(50::real) \<le> 50 \<and> label (getAQICategory (Fin 50)) = ''Good'' \<and>
   (50::real) < 51 \<and> (51::real) \<le> 100 \<and> label (getAQICategory (Fin 51)) = ''Moderate'' \<and>
   (100::real) < 101 \<and> (101::real) \<le> 150 \<and>
     label (getAQICategory (Fin 101)) = ''Unhealthy for Sensitive Groups'' \<and>
   (150::real) < 151 \<and> (151::real) \<le> 200 \<and> label (getAQICategory (Fin 151)) = ''Unhealthy'' \<and>
   (200::real) < 201 \<and> (201::real) \<le> 300 \<and> label (getAQICategory (Fin 201)) = ''Very Unhealthy'' \<and>
   (300::real) < 301 \<and> label (getAQICategory (Fin 301)) = ''Hazardous''"
  using getAQICategory_tiers [of 50 "Fin 50"] getAQICategory_tiers [of 51 "Fin 51"]
    getAQICategory_tiers [of 101 "Fin 101"] getAQICategory_tiers [of 151 "Fin 151"]
    getAQICategory_tiers [of 201 "Fin 201"] getAQICategory_tiers [of 301 "Fin 301"]
  by simp

section \<open>Properties of the data shaper\<close>

lemma mapiE_total:
  assumes "\<And>j. j < length xs \<Longrightarrow> f (xs ! j) (k + j) = Inr (g (k + j))"
  shows "mapiE f k xs = Inr (map g [k..<k + length xs])"
  using assms
proof (induction xs arbitrary: k)
  case Nil
  then show ?case by simp
next
  case (Cons x xs)
  have hd: "f x k = Inr (g k)"
    using Cons.prems [of 0] by simp
  have tl: "mapiE f (Suc k) xs = Inr (map g [Suc k..<Suc k + length xs])"
  proof (rule Cons.IH)
    fix j assume "j < length xs"
    then show "f (xs ! j) (Suc k + j) = Inr (g (Suc k + j))"
      using Cons.prems [of "Suc j"] by simp
  qed
  have "k < Suc k + length xs"
    by simp
  then have "[k..<Suc k + length xs] = k # [Suc k..<Suc k + length xs]"
    by (rule upt_conv_Cons)
  moreover have "k + length (x # xs) = Suc k + length xs"
    by simp
  ultimately have "[k..<k + length (x # xs)] = k # [Suc k..<Suc k + length xs]"
    by (simp only:)
  then show ?case
    by (simp only: mapiE.simps hd tl bindE.simps list.map)
qed

lemma get_prop_truthy_data:
  assumes "get_prop data k = Inr v" and "truthy v"
  shows "truthy data"
  using assms by (cases data) auto

lemma optional_index_Undefined: "optional_index Undefined i = Inr Undefined"
  by (simp add: optional_index_def)

lemma optional_index_Arr: "optional_index (Arr xs) i = Inr (array_read xs i)"
  by (simp add: optional_index_def)

lemma formatAqiForecastData_arrays:
  assumes hourly: "get_prop data ''hourly'' = Inr (Obj h)"
    and time: "get_prop (Obj h) ''time'' = Inr (Arr ts)"
    and eaqi: "get_prop (Obj h) ''european_aqi'' = Inr (Arr es)"
    and pm2_5: "get_prop (Obj h) ''pm2_5'' = Inr p2" "p2 = Undefined \<or> (\<exists>ps. p2 = Arr ps)"
    and pm10: "get_prop (Obj h) ''pm10'' = Inr p10" "p10 = Undefined \<or> (\<exists>ps. p10 = Arr ps)"
  shows "formatAqiForecastData getHours data =
           Inr (map (forecast_point getHours ts es p2 p10) [0..<min 24 (length ts)])"
proof -
  have data: "truthy data"
    using hourly by (rule get_prop_truthy_data) simp
  have o2: "optional_index p2 i = Inr (case p2 of Arr ps \<Rightarrow> array_read ps i | _ \<Rightarrow> Undefined)" for i
    using pm2_5(2) by (auto simp: optional_index_def)
  have o10: "optional_index p10 i = Inr (case p10 of Arr ps \<Rightarrow> array_read ps i | _ \<Rightarrow> Undefined)" for i
    using pm10(2) by (auto simp: optional_index_def)
  let ?f = "\<lambda>time i.
              bindE (get_prop (Obj h) ''european_aqi'') (\<lambda>european_aqi.
              bindE (get_index european_aqi i) (\<lambda>aqi.
              bindE (get_prop (Obj h) ''pm2_5'') (\<lambda>pm2_5s.
              bindE (optional_index pm2_5s i) (\<lambda>pm2_5.
              bindE (get_prop (Obj h) ''pm10'') (\<lambda>pm10s.
              bindE (optional_index pm10s i) (\<lambda>pm10.
                Inr (Obj [(''name'', Num (getHours time)), (''aqi'', aqi),
                          (''pm2_5'', pm2_5), (''pm10'', pm10)])))))))"
  have step: "?f (take 24 ts ! j) (0 + j) = Inr (forecast_point getHours ts es p2 p10 (0 + j))"
    if "j < length (take 24 ts)" for j
    using that by (simp add: eaqi pm2_5(1) pm10(1) o2 o10 forecast_point_def del: get_prop.simps)
  have "mapiE ?f 0 (take 24 ts) =
          Inr (map (forecast_point getHours ts es p2 p10) [0..<0 + length (take 24 ts)])"
    using step by (rule mapiE_total)
  then show ?thesis
    unfolding formatAqiForecastData_def
    by (simp add: data hourly time min.commute del: get_prop.simps)
qed

lemma formatPollenData_arrays:
  assumes daily: "get_prop data ''daily'' = Inr (Obj d)"
    and time: "get_prop (Obj d) ''time'' = Inr (Arr ts)"
    and grass: "get_prop (Obj d) ''grass_pollen'' = Inr (Arr gs)"
    and tree: "get_prop (Obj d) ''tree_pollen'' = Inr (Arr trs)"
    and weed: "get_prop (Obj d) ''weed_pollen'' = Inr (Arr ws)"
  shows "formatPollenData weekday data =
           Inr (map (pollen_point weekday ts gs trs ws) [0..<length ts])"
proof -
  have data: "truthy data"
    using daily by (rule get_prop_truthy_data) simp
  let ?f = "\<lambda>date i.
              bindE (get_prop (Obj d) ''grass_pollen'') (\<lambda>grass_pollen.
              bindE (get_index grass_pollen i) (\<lambda>grass.
              bindE (get_prop (Obj d) ''tree_pollen'') (\<lambda>tree_pollen.
              bindE (get_index tree_pollen i) (\<lambda>tree.
              bindE (get_prop (Obj d) ''weed_pollen'') (\<lambda>weed_pollen.
              bindE (get_index weed_pollen i) (\<lambda>weed.
                Inr (Obj [(''name'', Str (weekday date)), (''grass'', grass),
                          (''tree'', tree), (''weed'', weed)])))))))"
  have step: "?f (ts ! j) (0 + j) = Inr (pollen_point weekday ts gs trs ws (0 + j))"
    if "j < length ts" for j
    by (simp add: grass tree weed pollen_point_def del: get_prop.simps)
  have "mapiE ?f 0 ts = Inr (map (pollen_point weekday ts gs trs ws) [0..<0 + length ts])"
    using step by (rule mapiE_total)
  then show ?thesis
    unfolding formatPollenData_def
    by (simp add: data daily time del: get_prop.simps)
qed

lemma formatAqiForecastData_absent:
  assumes "data = Undefined \<or> get_prop data ''hourly'' = Inr Undefined"
  shows "formatAqiForecastData getHours data = Inr []"
  using assms by (auto simp: formatAqiForecastData_def simp del: get_prop.simps)

lemma formatPollenData_absent:
  assumes "data = Undefined \<or> get_prop data ''daily'' = Inr Undefined"
  shows "formatPollenData weekday data = Inr []"
  using assms by (auto simp: formatPollenData_def simp del: get_prop.simps)

lemma forecast_point_fields:
  "get_prop (forecast_point getHours ts es p2 p10 i) ''name'' = Inr (Num (getHours (ts ! i)))"
  "get_prop (forecast_point getHours ts es p2 p10 i) ''aqi'' = Inr (array_read es i)"
  "get_prop (forecast_point getHours ts es (Arr ps) p10 i) ''pm2_5'' = Inr (array_read ps i)"
  "get_prop (forecast_point getHours ts es Undefined p10 i) ''pm2_5'' = Inr Undefined"
  "get_prop (forecast_point getHours ts es p2 (Arr qs) i) ''pm10'' = Inr (array_read qs i)"
  "get_prop (forecast_point getHours ts es p2 Undefined i) ''pm10'' = Inr Undefined"
  by (simp_all add: forecast_point_def)

lemma pollen_point_fields:
  "get_prop (pollen_point weekday ts gs trs ws i) ''name'' = Inr (Str (weekday (ts ! i)))"
  "get_prop (pollen_point weekday ts gs trs ws i) ''grass'' = Inr (array_read gs i)"
  "get_prop (pollen_point weekday ts gs trs ws i) ''tree'' = Inr (array_read trs i)"
  "get_prop (pollen_point weekday ts gs trs ws i) ''weed'' = Inr (array_read ws i)"
  by (simp_all add: pollen_point_def)

lemma array_read_in: "i < length xs \<Longrightarrow> array_read xs i = xs ! i"
  by (simp add: array_read_def)

lemma array_read_out: "length xs \<le> i \<Longrightarrow> array_read xs i = Undefined"
  by (simp add: array_read_def)

text \<open>
  C5. For a forecast whose \<open>hourly\<close> object holds the array \<open>time\<close>, the array
  \<open>european_aqi\<close> and optional arrays \<open>pm2_5\<close> and \<open>pm10\<close>, \<open>formatAqiForecastData\<close>
  returns at most 24 points and at most \<open>min(24, len(time))\<close>; with 30 timestamps and 30
  index values it returns exactly 24. Point \<open>i\<close> has as name the hour of day of
  \<open>time[i]\<close>, as \<open>aqi\<close> the entry \<open>european_aqi[i]\<close>, and as \<open>pm2_5\<close> and \<open>pm10\<close> the
  entries at \<open>i\<close> of the optional series when they are present, \<open>undefined\<close> otherwise.
\<close>

theorem formatAqiForecastData_first_24:
  assumes hourly: "get_prop data ''hourly'' = Inr (Obj h)"
    and time: "get_prop (Obj h) ''time'' = Inr (Arr ts)"
    and eaqi: "get_prop (Obj h) ''european_aqi'' = Inr (Arr es)"
    and pm2_5: "get_prop (Obj h) ''pm2_5'' = Inr p2" "p2 = Undefined \<or> (\<exists>ps. p2 = Arr ps)"
    and pm10: "get_prop (Obj h) ''pm10'' = Inr p10" "p10 = Undefined \<or> (\<exists>qs. p10 = Arr qs)"
  shows "\<exists>pts. formatAqiForecastData getHours data = Inr pts \<and>
           length pts \<le> 24 \<and> length pts \<le> min 24 (length ts) \<and>
           (length ts = 30 \<and> length es = 30 \<longrightarrow> length pts = 24) \<and>
           (\<forall>i<length pts.
              get_prop (pts ! i) ''name'' = Inr (Num (getHours (ts ! i))) \<and>
              get_prop (pts ! i) ''aqi'' = Inr (array_read es i) \<and>
              (length es = length ts \<longrightarrow> get_prop (pts ! i) ''aqi'' = Inr (es ! i)) \<and>
              (\<forall>ps. p2 = Arr ps \<longrightarrow> get_prop (pts ! i) ''pm2_5'' = Inr (array_read ps i)) \<and>
              (p2 = Undefined \<longrightarrow> get_prop (pts ! i) ''pm2_5'' = Inr Undefined) \<and>
              (\<forall>qs. p10 = Arr qs \<longrightarrow> get_prop (pts ! i) ''pm10'' = Inr (array_read qs i)) \<and>
              (p10 = Undefined \<longrightarrow> get_prop (pts ! i) ''pm10'' = Inr Undefined))"
proof -
  let ?pts = "map (forecast_point getHours ts es p2 p10) [0..<min 24 (length ts)]"
  have res: "formatAqiForecastData getHours data = Inr ?pts"
    using assms by (rule formatAqiForecastData_arrays)
  have len: "length ?pts = min 24 (length ts)"
    by simp
  have pt: "?pts ! i = forecast_point getHours ts es p2 p10 i" if "i < length ?pts" for i
    using that by simp
  have fields: "get_prop (?pts ! i) ''name'' = Inr (Num (getHours (ts ! i))) \<and>
      get_prop (?pts ! i) ''aqi'' = Inr (array_read es i) \<and>
      (length es = length ts \<longrightarrow> get_prop (?pts ! i) ''aqi'' = Inr (es ! i)) \<and>
      (\<forall>ps. p2 = Arr ps \<longrightarrow> get_prop (?pts ! i) ''pm2_5'' = Inr (array_read ps i)) \<and>
      (p2 = Undefined \<longrightarrow> get_prop (?pts ! i) ''pm2_5'' = Inr Undefined) \<and>
      (\<forall>qs. p10 = Arr qs \<longrightarrow> get_prop (?pts ! i) ''pm10'' = Inr (array_read qs i)) \<and>
      (p10 = Undefined \<longrightarrow> get_prop (?pts ! i) ''pm10'' = Inr Undefined)"
    if i: "i < length ?pts" for i
  proof -
    have "i < length ts"
      using i by simp
    then have "length es = length ts \<longrightarrow> array_read es i = es ! i"
      by (simp add: array_read_in)
    then show ?thesis
      unfolding pt [OF i] by (auto simp: forecast_point_fields simp del: get_prop.simps)
  qed
  show ?thesis
  proof (intro exI conjI)
    show "formatAqiForecastData getHours data = Inr ?pts" by (rule res)
    show "length ?pts \<le> 24" by simp
    show "length ?pts \<le> min 24 (length ts)" by simp
    show "length ts = 30 \<and> length es = 30 \<longrightarrow> length ?pts = 24" by simp
    show "\<forall>i<length ?pts.
              get_prop (?pts ! i) ''name'' = Inr (Num (getHours (ts ! i))) \<and>
              get_prop (?pts ! i) ''aqi'' = Inr (array_read es i) \<and>
              (length es = length ts \<longrightarrow> get_prop (?pts ! i) ''aqi'' = Inr (es ! i)) \<and>
              (\<forall>ps. p2 = Arr ps \<longrightarrow> get_prop (?pts ! i) ''pm2_5'' = Inr (array_read ps i)) \<and>
              (p2 = Undefined \<longrightarrow> get_prop (?pts ! i) ''pm2_5'' = Inr Undefined) \<and>
              (\<forall>qs. p10 = Arr qs \<longrightarrow> get_prop (?pts ! i) ''pm10'' = Inr (array_read qs i)) \<and>
              (p10 = Undefined \<longrightarrow> get_prop (?pts ! i) ''pm10'' = Inr Undefined)"
      using fields by blast
  qed
qed

theorem formatAqiForecastData_first_24_witness:
  "\<exists>pts. formatAqiForecastData (\<lambda>t. Fin 7)
            (Obj [(''hourly'',
                   Obj [(''time'', Arr (replicate 30 (Str ''2024-01-01T07:00''))),
                        (''european_aqi'', Arr (replicate 30 (Num (Fin 80)))),
                        (''pm2_5'', Arr (replicate 30 (Num (Fin 12))))])]) = Inr pts \<and>
         length pts = 24 \<and>
         get_prop (pts ! 23) ''name'' = Inr (Num (Fin 7)) \<and>
         get_prop (pts ! 23) ''aqi'' = Inr (Num (Fin 80)) \<and>
         get_prop (pts ! 23) ''pm2_5'' = Inr (Num (Fin 12)) \<and>
         get_prop (pts ! 23) ''pm10'' = Inr Undefined"
proof -
  let ?h = "[(''time'', Arr (replicate 30 (Str ''2024-01-01T07:00''))),
             (''european_aqi'', Arr (replicate 30 (Num (Fin 80)))),
             (''pm2_5'', Arr (replicate 30 (Num (Fin 12))))]"
  have h1: "get_prop (Obj [(''hourly'', Obj ?h)]) ''hourly'' = Inr (Obj ?h)" by simp
  have h2: "get_prop (Obj ?h) ''time'' = Inr (Arr (replicate 30 (Str ''2024-01-01T07:00'')))" by simp
  have h3: "get_prop (Obj ?h) ''european_aqi'' = Inr (Arr (replicate 30 (Num (Fin 80))))" by simp
  have h4: "get_prop (Obj ?h) ''pm2_5'' = Inr (Arr (replicate 30 (Num (Fin 12))))" by simp
  have h5: "Arr (replicate 30 (Num (Fin 12))) = Undefined \<or> (\<exists>ps. Arr (replicate 30 (Num (Fin 12))) = Arr ps)" by simp
  have h6: "get_prop (Obj ?h) ''pm10'' = Inr Undefined" by simp
  have h7: "Undefined = Undefined \<or> (\<exists>qs. Undefined = Arr qs)" by simp
  from formatAqiForecastData_first_24 [OF h1 h2 h3 h4 h5 h6 h7, of "\<lambda>t. Fin 7"]
  obtain pts where pts: "formatAqiForecastData (\<lambda>t. Fin 7) (Obj [(''hourly'', Obj ?h)]) = Inr pts"
    and len: "length (replicate 30 (Str ''2024-01-01T07:00'')) = 30 \<and> length (replicate 30 (Num (Fin 80))) = 30 \<longrightarrow> length pts = 24"
    and fields: "\<forall>i<length pts.
              get_prop (pts ! i) ''name'' = Inr (Num (Fin 7)) \<and>
              get_prop (pts ! i) ''aqi'' = Inr (array_read (replicate 30 (Num (Fin 80))) i) \<and>
              (length (replicate 30 (Num (Fin 80))) = length (replicate 30 (Str ''2024-01-01T07:00'')) \<longrightarrow> get_prop (pts ! i) ''aqi'' = Inr (replicate 30 (Num (Fin 80)) ! i)) \<and>
              (\<forall>ps. Arr (replicate 30 (Num (Fin 12))) = Arr ps \<longrightarrow> get_prop (pts ! i) ''pm2_5'' = Inr (array_read ps i)) \<and>
              (Arr (replicate 30 (Num (Fin 12))) = Undefined \<longrightarrow> get_prop (pts ! i) ''pm2_5'' = Inr Undefined) \<and>
              (\<forall>qs. Undefined = Arr qs \<longrightarrow> get_prop (pts ! i) ''pm10'' = Inr (array_read qs i)) \<and>
              (Undefined = Undefined \<longrightarrow> get_prop (pts ! i) ''pm10'' = Inr Undefined)"
    by blast
  have l24: "length pts = 24" using len by simp
  have "get_prop (pts ! 23) ''name'' = Inr (Num (Fin 7)) \<and>
         get_prop (pts ! 23) ''aqi'' = Inr (Num (Fin 80)) \<and>
         get_prop (pts ! 23) ''pm2_5'' = Inr (Num (Fin 12)) \<and>
         get_prop (pts ! 23) ''pm10'' = Inr Undefined"
    using fields [rule_format, of 23] l24 by (simp add: array_read_def)
  with pts l24 show ?thesis by blast
qed

text \<open>
  C6. When the \<open>hourly\<close> field is absent, \<open>formatAqiForecastData\<close> returns the empty
  array and does not throw; when the \<open>daily\<close> field is absent, \<open>formatPollenData\<close> does
  the same. Both hold for the empty object, and for an absent input altogether.
\<close>

theorem shapers_absent_field_empty:
  "(data = Undefined \<or> get_prop data ''hourly'' = Inr Undefined \<longrightarrow>
      formatAqiForecastData getHours data = Inr []) \<and>
   (pdata = Undefined \<or> get_prop pdata ''daily'' = Inr Undefined \<longrightarrow>
      formatPollenData weekday pdata = Inr []) \<and>
   formatAqiForecastData getHours (Obj []) = Inr [] \<and>
   formatPollenData weekday (Obj []) = Inr []"
proof (intro conjI impI)
  assume "data = Undefined \<or> get_prop data ''hourly'' = Inr Undefined"
  then show "formatAqiForecastData getHours data = Inr []"
    by (rule formatAqiForecastData_absent)
next
  assume "pdata = Undefined \<or> get_prop pdata ''daily'' = Inr Undefined"
  then show "formatPollenData weekday pdata = Inr []"
    by (rule formatPollenData_absent)
next
  show "formatAqiForecastData getHours (Obj []) = Inr []"
    by (rule formatAqiForecastData_absent) simp
next
  show "formatPollenData weekday (Obj []) = Inr []"
    by (rule formatPollenData_absent) simp
qed

theorem shapers_absent_field_empty_witness:
  "get_prop (Obj [(''daily'', Obj [])]) ''hourly'' = Inr Undefined \<and>
   formatAqiForecastData (\<lambda>t. Fin 0) (Obj [(''daily'', Obj [])]) = Inr [] \<and>
   get_prop (Obj [(''hourly'', Obj [])]) ''daily'' = Inr Undefined \<and>
   formatPollenData (\<lambda>d. ''Mon'') (Obj [(''hourly'', Obj [])]) = Inr []"
  using shapers_absent_field_empty [of "Obj [(''daily'', Obj [])]" "\<lambda>t. Fin 0"
      "Obj [(''hourly'', Obj [])]" "\<lambda>d. ''Mon''"]
  by simp

text \<open>
  C7. For a pollen forecast whose \<open>daily\<close> object holds the arrays \<open>time\<close>,
  \<open>grass_pollen\<close>, \<open>tree_pollen\<close> and \<open>weed_pollen\<close>, \<open>formatPollenData\<close> returns one
  point per index \<open>i\<close> of \<open>time\<close>: its name is the weekday abbreviation of \<open>time[i]\<close> and
  its grass, tree and weed values are the entries at \<open>i\<close> of the three series. For the
  two days of scenario C the first point carries grass 1, tree 3 and weed 5, the second
  grass 2, tree 4 and weed 6.
\<close>

theorem formatPollenData_points:
  assumes daily: "get_prop data ''daily'' = Inr (Obj d)"
    and time: "get_prop (Obj d) ''time'' = Inr (Arr ts)"
    and grass: "get_prop (Obj d) ''grass_pollen'' = Inr (Arr gs)"
    and tree: "get_prop (Obj d) ''tree_pollen'' = Inr (Arr trs)"
    and weed: "get_prop (Obj d) ''weed_pollen'' = Inr (Arr ws)"
  shows "(\<exists>pts. formatPollenData weekday data = Inr pts \<and> length pts = length ts \<and>
           (\<forall>i<length ts.
              pts ! i = Obj [(''name'', Str (weekday (ts ! i))), (''grass'', array_read gs i),
                             (''tree'', array_read trs i), (''weed'', array_read ws i)] \<and>
              (i < length gs \<longrightarrow> get_prop (pts ! i) ''grass'' = Inr (gs ! i)) \<and>
              (i < length trs \<longrightarrow> get_prop (pts ! i) ''tree'' = Inr (trs ! i)) \<and>
              (i < length ws \<longrightarrow> get_prop (pts ! i) ''weed'' = Inr (ws ! i)))) \<and>
         formatPollenData weekday
           (Obj [(''daily'',
                  Obj [(''time'', Arr [Str ''2024-01-01'', Str ''2024-01-02'']),
                       (''grass_pollen'', Arr [Num (Fin 1), Num (Fin 2)]),
                       (''tree_pollen'', Arr [Num (Fin 3), Num (Fin 4)]),
                       (''weed_pollen'', Arr [Num (Fin 5), Num (Fin 6)])])]) =
         Inr [Obj [(''name'', Str (weekday (Str ''2024-01-01''))), (''grass'', Num (Fin 1)),
                   (''tree'', Num (Fin 3)), (''weed'', Num (Fin 5))],
              Obj [(''name'', Str (weekday (Str ''2024-01-02''))), (''grass'', Num (Fin 2)),
                   (''tree'', Num (Fin 4)), (''weed'', Num (Fin 6))]]"
proof (rule conjI)
  let ?pts = "map (pollen_point weekday ts gs trs ws) [0..<length ts]"
  have res: "formatPollenData weekday data = Inr ?pts"
    using assms by (rule formatPollenData_arrays)
  have pt: "?pts ! i = pollen_point weekday ts gs trs ws i" if "i < length ts" for i
    using that by simp
  have "\<forall>i<length ts.
          ?pts ! i = Obj [(''name'', Str (weekday (ts ! i))), (''grass'', array_read gs i),
                          (''tree'', array_read trs i), (''weed'', array_read ws i)] \<and>
          (i < length gs \<longrightarrow> get_prop (?pts ! i) ''grass'' = Inr (gs ! i)) \<and>
          (i < length trs \<longrightarrow> get_prop (?pts ! i) ''tree'' = Inr (trs ! i)) \<and>
          (i < length ws \<longrightarrow> get_prop (?pts ! i) ''weed'' = Inr (ws ! i))"
    by (simp add: pollen_point_fields array_read_in del: get_prop.simps)
       (simp add: pollen_point_def)
  with res show "\<exists>pts. formatPollenData weekday data = Inr pts \<and> length pts = length ts \<and>
           (\<forall>i<length ts.
              pts ! i = Obj [(''name'', Str (weekday (ts ! i))), (''grass'', array_read gs i),
                             (''tree'', array_read trs i), (''weed'', array_read ws i)] \<and>
              (i < length gs \<longrightarrow> get_prop (pts ! i) ''grass'' = Inr (gs ! i)) \<and>
              (i < length trs \<longrightarrow> get_prop (pts ! i) ''tree'' = Inr (trs ! i)) \<and>
              (i < length ws \<longrightarrow> get_prop (pts ! i) ''weed'' = Inr (ws ! i)))"
    by (intro exI [of _ ?pts]) (simp add: array_read_in)
next
  let ?d = "[(''time'', Arr [Str ''2024-01-01'', Str ''2024-01-02'']),
             (''grass_pollen'', Arr [Num (Fin 1), Num (Fin 2)]),
             (''tree_pollen'', Arr [Num (Fin 3), Num (Fin 4)]),
             (''weed_pollen'', Arr [Num (Fin 5), Num (Fin 6)])]"
  have "formatPollenData weekday (Obj [(''daily'', Obj ?d)]) =
          Inr (map (pollen_point weekday [Str ''2024-01-01'', Str ''2024-01-02'']
                      [Num (Fin 1), Num (Fin 2)] [Num (Fin 3), Num (Fin 4)]
                      [Num (Fin 5), Num (Fin 6)])
                 [0..<length [Str ''2024-01-01'', Str ''2024-01-02'']])"
    by (rule formatPollenData_arrays [where d = ?d]) simp_all
  also have "[0..<length [Str ''2024-01-01'', Str ''2024-01-02'']] = [0, Suc 0]"
    by (simp add: upt_conv_Cons)
  finally show "formatPollenData weekday (Obj [(''daily'', Obj ?d)]) =
         Inr [Obj [(''name'', Str (weekday (Str ''2024-01-01''))), (''grass'', Num (Fin 1)),
                   (''tree'', Num (Fin 3)), (''weed'', Num (Fin 5))],
              Obj [(''name'', Str (weekday (Str ''2024-01-02''))), (''grass'', Num (Fin 2)),
                   (''tree'', Num (Fin 4)), (''weed'', Num (Fin 6))]]"
    by (simp add: pollen_point_def array_read_def)
qed

theorem formatPollenData_points_witness:
  "\<exists>pts. formatPollenData (\<lambda>d. ''Mon'')
           (Obj [(''daily'',
                  Obj [(''time'', Arr [Str ''2024-01-01'', Str ''2024-01-02'']),
                       (''grass_pollen'', Arr [Num (Fin 1), Num (Fin 2)]),
                       (''tree_pollen'', Arr [Num (Fin 3), Num (Fin 4)]),
                       (''weed_pollen'', Arr [Num (Fin 5), Num (Fin 6)])])]) = Inr pts \<and>
         length pts = 2 \<and>
         get_prop (pts ! 0) ''grass'' = Inr (Num (Fin 1)) \<and>
         get_prop (pts ! 0) ''tree'' = Inr (Num (Fin 3)) \<and>
         get_prop (pts ! 0) ''weed'' = Inr (Num (Fin 5)) \<and>
         get_prop (pts ! 1) ''grass'' = Inr (Num (Fin 2))"
proof -
  let ?d = "[(''time'', Arr [Str ''2024-01-01'', Str ''2024-01-02'']),
             (''grass_pollen'', Arr [Num (Fin 1), Num (Fin 2)]),
             (''tree_pollen'', Arr [Num (Fin 3), Num (Fin 4)]),
             (''weed_pollen'', Arr [Num (Fin 5), Num (Fin 6)])]"
  have h1: "get_prop (Obj [(''daily'', Obj ?d)]) ''daily'' = Inr (Obj ?d)" by simp
  have h2: "get_prop (Obj ?d) ''time'' = Inr (Arr [Str ''2024-01-01'', Str ''2024-01-02''])" by simp
  have h3: "get_prop (Obj ?d) ''grass_pollen'' = Inr (Arr [Num (Fin 1), Num (Fin 2)])" by simp
  have h4: "get_prop (Obj ?d) ''tree_pollen'' = Inr (Arr [Num (Fin 3), Num (Fin 4)])" by simp
  have h5: "get_prop (Obj ?d) ''weed_pollen'' = Inr (Arr [Num (Fin 5), Num (Fin 6)])" by simp
  from formatPollenData_points [OF h1 h2 h3 h4 h5, of "\<lambda>d. ''Mon''", THEN conjunct1]
  obtain pts where pts: "formatPollenData (\<lambda>d. ''Mon'') (Obj [(''daily'', Obj ?d)]) = Inr pts"
    and len: "length pts = length [Str ''2024-01-01'', Str ''2024-01-02'']"
    and fields: "\<forall>i<length [Str ''2024-01-01'', Str ''2024-01-02''].
              pts ! i = Obj [(''name'', Str ''Mon''),
                             (''grass'', array_read [Num (Fin 1), Num (Fin 2)] i),
                             (''tree'', array_read [Num (Fin 3), Num (Fin 4)] i),
                             (''weed'', array_read [Num (Fin 5), Num (Fin 6)] i)] \<and>
              (i < length [Num (Fin 1), Num (Fin 2)] \<longrightarrow>
                 get_prop (pts ! i) ''grass'' = Inr ([Num (Fin 1), Num (Fin 2)] ! i)) \<and>
              (i < length [Num (Fin 3), Num (Fin 4)] \<longrightarrow>
                 get_prop (pts ! i) ''tree'' = Inr ([Num (Fin 3), Num (Fin 4)] ! i)) \<and>
              (i < length [Num (Fin 5), Num (Fin 6)] \<longrightarrow>
                 get_prop (pts ! i) ''weed'' = Inr ([Num (Fin 5), Num (Fin 6)] ! i))"
    by blast
  have "get_prop (pts ! 0) ''grass'' = Inr (Num (Fin 1)) \<and>
        get_prop (pts ! 0) ''tree'' = Inr (Num (Fin 3)) \<and>
        get_prop (pts ! 0) ''weed'' = Inr (Num (Fin 5))"
    using fields [rule_format, of 0] by (simp add: array_read_def)
  moreover have "get_prop (pts ! 1) ''grass'' = Inr (Num (Fin 2))"
    using fields [rule_format, of 1] by (simp add: array_read_def)
  moreover have "length pts = 2"
    using len by simp
  ultimately show ?thesis
    using pts by blast
qed

text \<open>
  C9. When a series is shorter than the \<open>time\<close> array, both transforms still return
  without throwing, with one point per time index in scope (the first 24 for the
  forecast, all of them for pollen); a read past the end of a series yields
  \<open>undefined\<close> as the value of that field.
\<close>

theorem shapers_short_series:
  assumes hourly: "get_prop data ''hourly'' = Inr (Obj h)"
    and time: "get_prop (Obj h) ''time'' = Inr (Arr ts)"
    and eaqi: "get_prop (Obj h) ''european_aqi'' = Inr (Arr es)"
    and pm2_5: "get_prop (Obj h) ''pm2_5'' = Inr p2" "p2 = Undefined \<or> (\<exists>ps. p2 = Arr ps)"
    and pm10: "get_prop (Obj h) ''pm10'' = Inr p10" "p10 = Undefined \<or> (\<exists>qs. p10 = Arr qs)"
    and daily: "get_prop pdata ''daily'' = Inr (Obj d)"
    and dtime: "get_prop (Obj d) ''time'' = Inr (Arr dts)"
    and grass: "get_prop (Obj d) ''grass_pollen'' = Inr (Arr gs)"
    and tree: "get_prop (Obj d) ''tree_pollen'' = Inr (Arr trs)"
    and weed: "get_prop (Obj d) ''weed_pollen'' = Inr (Arr ws)"
  shows "(\<exists>pts. formatAqiForecastData getHours data = Inr pts \<and>
            length pts = min 24 (length ts) \<and>
            (\<forall>i<length pts.
               (length es \<le> i \<longrightarrow> get_prop (pts ! i) ''aqi'' = Inr Undefined) \<and>
               (\<forall>ps. p2 = Arr ps \<and> length ps \<le> i \<longrightarrow>
                  get_prop (pts ! i) ''pm2_5'' = Inr Undefined) \<and>
               (\<forall>qs. p10 = Arr qs \<and> length qs \<le> i \<longrightarrow>
                  get_prop (pts ! i) ''pm10'' = Inr Undefined))) \<and>
         (\<exists>pts. formatPollenData weekday pdata = Inr pts \<and>
            length pts = length dts \<and>
            (\<forall>i<length pts.
               (length gs \<le> i \<longrightarrow> get_prop (pts ! i) ''grass'' = Inr Undefined) \<and>
               (length trs \<le> i \<longrightarrow> get_prop (pts ! i) ''tree'' = Inr Undefined) \<and>
               (length ws \<le> i \<longrightarrow> get_prop (pts ! i) ''weed'' = Inr Undefined)))"
proof (rule conjI)
  let ?pts = "map (forecast_point getHours ts es p2 p10) [0..<min 24 (length ts)]"
  have res: "formatAqiForecastData getHours data = Inr ?pts"
    using hourly time eaqi pm2_5 pm10 by (rule formatAqiForecastData_arrays)
  have "\<forall>i<length ?pts.
          (length es \<le> i \<longrightarrow> get_prop (?pts ! i) ''aqi'' = Inr Undefined) \<and>
          (\<forall>ps. p2 = Arr ps \<and> length ps \<le> i \<longrightarrow>
             get_prop (?pts ! i) ''pm2_5'' = Inr Undefined) \<and>
          (\<forall>qs. p10 = Arr qs \<and> length qs \<le> i \<longrightarrow>
             get_prop (?pts ! i) ''pm10'' = Inr Undefined)"
    by (auto simp: forecast_point_fields array_read_out simp del: get_prop.simps)
  with res show "\<exists>pts. formatAqiForecastData getHours data = Inr pts \<and>
            length pts = min 24 (length ts) \<and>
            (\<forall>i<length pts.
               (length es \<le> i \<longrightarrow> get_prop (pts ! i) ''aqi'' = Inr Undefined) \<and>
               (\<forall>ps. p2 = Arr ps \<and> length ps \<le> i \<longrightarrow>
                  get_prop (pts ! i) ''pm2_5'' = Inr Undefined) \<and>
               (\<forall>qs. p10 = Arr qs \<and> length qs \<le> i \<longrightarrow>
                  get_prop (pts ! i) ''pm10'' = Inr Undefined))"
    by (intro exI [of _ ?pts] conjI) simp_all
next
  let ?pts = "map (pollen_point weekday dts gs trs ws) [0..<length dts]"
  have res: "formatPollenData weekday pdata = Inr ?pts"
    using daily dtime grass tree weed by (rule formatPollenData_arrays)
  have "\<forall>i<length ?pts.
          (length gs \<le> i \<longrightarrow> get_prop (?pts ! i) ''grass'' = Inr Undefined) \<and>
          (length trs \<le> i \<longrightarrow> get_prop (?pts ! i) ''tree'' = Inr Undefined) \<and>
          (length ws \<le> i \<longrightarrow> get_prop (?pts ! i) ''weed'' = Inr Undefined)"
    by (auto simp: pollen_point_fields array_read_out simp del: get_prop.simps)
  with res show "\<exists>pts. formatPollenData weekday pdata = Inr pts \<and>
            length pts = length dts \<and>
            (\<forall>i<length pts.
               (length gs \<le> i \<longrightarrow> get_prop (pts ! i) ''grass'' = Inr Undefined) \<and>
               (length trs \<le> i \<longrightarrow> get_prop (pts ! i) ''tree'' = Inr Undefined) \<and>
               (length ws \<le> i \<longrightarrow> get_prop (pts ! i) ''weed'' = Inr Undefined))"
    by (intro exI [of _ ?pts] conjI) simp_all
qed

theorem shapers_short_series_witness:
  "(\<exists>pts. formatAqiForecastData (\<lambda>t. Fin 7)
            (Obj [(''hourly'',
                   Obj [(''time'', Arr [Str ''a'', Str ''b'', Str ''c'']),
                        (''european_aqi'', Arr [Num (Fin 80)]),
                        (''pm2_5'', Arr [])])]) = Inr pts \<and>
          length pts = 3 \<and>
          get_prop (pts ! 1) ''aqi'' = Inr Undefined \<and>
          get_prop (pts ! 0) ''pm2_5'' = Inr Undefined) \<and>
   (\<exists>pts. formatPollenData (\<lambda>d. ''Mon'')
            (Obj [(''daily'',
                   Obj [(''time'', Arr [Str ''2024-01-01'', Str ''2024-01-02'']),
                        (''grass_pollen'', Arr [Num (Fin 1)]),
                        (''tree_pollen'', Arr []),
                        (''weed_pollen'', Arr [Num (Fin 5), Num (Fin 6)])])]) = Inr pts \<and>
          length pts = 2 \<and>
          get_prop (pts ! 1) ''grass'' = Inr Undefined \<and>
          get_prop (pts ! 0) ''tree'' = Inr Undefined)"
proof -
  let ?h = "[(''time'', Arr [Str ''a'', Str ''b'', Str ''c'']),
             (''european_aqi'', Arr [Num (Fin 80)]),
             (''pm2_5'', Arr [])]"
  let ?d = "[(''time'', Arr [Str ''2024-01-01'', Str ''2024-01-02'']),
             (''grass_pollen'', Arr [Num (Fin 1)]),
             (''tree_pollen'', Arr []),
             (''weed_pollen'', Arr [Num (Fin 5), Num (Fin 6)])]"
  have h1: "get_prop (Obj [(''hourly'', Obj ?h)]) ''hourly'' = Inr (Obj ?h)" by simp
  have h2: "get_prop (Obj ?h) ''time'' = Inr (Arr [Str ''a'', Str ''b'', Str ''c''])" by simp
  have h3: "get_prop (Obj ?h) ''european_aqi'' = Inr (Arr [Num (Fin 80)])" by simp
  have h4: "get_prop (Obj ?h) ''pm2_5'' = Inr (Arr [])" by simp
  have h5: "Arr [] = Undefined \<or> (\<exists>ps. Arr [] = Arr ps)" by simp
  have h6: "get_prop (Obj ?h) ''pm10'' = Inr Undefined" by simp
  have h7: "Undefined = Undefined \<or> (\<exists>qs. Undefined = Arr qs)" by simp
  have d1: "get_prop (Obj [(''daily'', Obj ?d)]) ''daily'' = Inr (Obj ?d)" by simp
  have d2: "get_prop (Obj ?d) ''time'' = Inr (Arr [Str ''2024-01-01'', Str ''2024-01-02''])" by simp
  have d3: "get_prop (Obj ?d) ''grass_pollen'' = Inr (Arr [Num (Fin 1)])" by simp
  have d4: "get_prop (Obj ?d) ''tree_pollen'' = Inr (Arr [])" by simp
  have d5: "get_prop (Obj ?d) ''weed_pollen'' = Inr (Arr [Num (Fin 5), Num (Fin 6)])" by simp
  note both = shapers_short_series [OF h1 h2 h3 h4 h5 h6 h7 d1 d2 d3 d4 d5,
      of "\<lambda>t. Fin 7" "\<lambda>d. ''Mon''"]
  from both [THEN conjunct1]
  obtain pts where pts: "formatAqiForecastData (\<lambda>t. Fin 7) (Obj [(''hourly'', Obj ?h)]) = Inr pts"
    and len: "length pts = min 24 (length [Str ''a'', Str ''b'', Str ''c''])"
    and fields: "\<forall>i<length pts.
               (length [Num (Fin 80)] \<le> i \<longrightarrow> get_prop (pts ! i) ''aqi'' = Inr Undefined) \<and>
               (\<forall>ps. Arr [] = Arr ps \<and> length ps \<le> i \<longrightarrow>
                  get_prop (pts ! i) ''pm2_5'' = Inr Undefined) \<and>
               (\<forall>qs. Undefined = Arr qs \<and> length qs \<le> i \<longrightarrow>
                  get_prop (pts ! i) ''pm10'' = Inr Undefined)"
    by blast
  have l3: "length pts = 3" using len by simp
  have f1: "get_prop (pts ! 1) ''aqi'' = Inr Undefined"
    using fields [rule_format, of 1] l3 by simp
  have f2: "get_prop (pts ! 0) ''pm2_5'' = Inr Undefined"
    using fields [rule_format, of 0] l3 by simp
  from both [THEN conjunct2]
  obtain pps where pps: "formatPollenData (\<lambda>d. ''Mon'') (Obj [(''daily'', Obj ?d)]) = Inr pps"
    and plen: "length pps = length [Str ''2024-01-01'', Str ''2024-01-02'']"
    and pfields: "\<forall>i<length pps.
               (length [Num (Fin 1)] \<le> i \<longrightarrow> get_prop (pps ! i) ''grass'' = Inr Undefined) \<and>
               (length ([]::jsval list) \<le> i \<longrightarrow> get_prop (pps ! i) ''tree'' = Inr Undefined) \<and>
               (length [Num (Fin 5), Num (Fin 6)] \<le> i \<longrightarrow> get_prop (pps ! i) ''weed'' = Inr Undefined)"
    by blast
  have l2: "length pps = 2" using plen by simp
  have g1: "get_prop (pps ! 1) ''grass'' = Inr Undefined"
    using pfields [rule_format, of 1] l2 by simp
  have g2: "get_prop (pps ! 0) ''tree'' = Inr Undefined"
    using pfields [rule_format, of 0] l2 by simp
  show ?thesis
    using pts l3 f1 f2 pps l2 g1 g2 by blast
qed

text \<open>
  C10. For a pollen forecast whose \<open>daily\<close> object holds the four arrays,
  \<open>formatPollenData\<close> returns exactly as many points as \<open>time\<close> has entries. There is no
  cap at 24: more than 24 entries give more than 24 points.
\<close>

theorem formatPollenData_length:
  assumes daily: "get_prop data ''daily'' = Inr (Obj d)"
    and time: "get_prop (Obj d) ''time'' = Inr (Arr ts)"
    and grass: "get_prop (Obj d) ''grass_pollen'' = Inr (Arr gs)"
    and tree: "get_prop (Obj d) ''tree_pollen'' = Inr (Arr trs)"
    and weed: "get_prop (Obj d) ''weed_pollen'' = Inr (Arr ws)"
  shows "\<exists>pts. formatPollenData weekday data = Inr pts \<and> length pts = length ts \<and>
           (24 < length ts \<longrightarrow> 24 < length pts)"
proof -
  have "formatPollenData weekday data =
          Inr (map (pollen_point weekday ts gs trs ws) [0..<length ts])"
    using assms by (rule formatPollenData_arrays)
  then show ?thesis
    by simp
qed

theorem formatPollenData_length_witness:
  "\<exists>pts. formatPollenData (\<lambda>d. ''Mon'')
           (Obj [(''daily'',
                  Obj [(''time'', Arr (replicate 30 (Str ''2024-01-01''))),
                       (''grass_pollen'', Arr (replicate 30 (Num (Fin 1)))),
                       (''tree_pollen'', Arr (replicate 30 (Num (Fin 3)))),
                       (''weed_pollen'', Arr (replicate 30 (Num (Fin 5))))])]) = Inr pts \<and>
         length pts = 30 \<and> 24 < length pts"
proof -
  let ?d = "[(''time'', Arr (replicate 30 (Str ''2024-01-01''))),
             (''grass_pollen'', Arr (replicate 30 (Num (Fin 1)))),
             (''tree_pollen'', Arr (replicate 30 (Num (Fin 3)))),
             (''weed_pollen'', Arr (replicate 30 (Num (Fin 5))))]"
  have d1: "get_prop (Obj [(''daily'', Obj ?d)]) ''daily'' = Inr (Obj ?d)" by simp
  have d2: "get_prop (Obj ?d) ''time'' = Inr (Arr (replicate 30 (Str ''2024-01-01'')))" by simp
  have d3: "get_prop (Obj ?d) ''grass_pollen'' = Inr (Arr (replicate 30 (Num (Fin 1))))" by simp
  have d4: "get_prop (Obj ?d) ''tree_pollen'' = Inr (Arr (replicate 30 (Num (Fin 3))))" by simp
  have d5: "get_prop (Obj ?d) ''weed_pollen'' = Inr (Arr (replicate 30 (Num (Fin 5))))" by simp
  from formatPollenData_length [OF d1 d2 d3 d4 d5, of "\<lambda>d. ''Mon''"]
  show ?thesis by simp
qed

section \<open>Properties of the view and its fallback snapshots\<close>

lemma fallback_current_aqi: "read_current_aqi (fallbackAirQualityData e) = Inr (Num (Fin 85))"
  by (simp add: read_current_aqi_def fallbackAirQualityData_def)

lemma effectiveAirQualityData_Undefined:
  "effectiveAirQualityData e Undefined = fallbackAirQualityData e"
  by (simp add: effectiveAirQualityData_def js_or_def)

text \<open>
  C1. In the state where the air-quality query has settled as failed (data absent,
  loading flag false) the card reads \<open>airQualityData.current.aqi\<close> from the absent query
  data, not from \<open>effectiveAirQualityData\<close>: the first read throws a TypeError. The
  fallback snapshot is computed in that state, and the same reads succeed on it.
\<close>

theorem currentAirQualityGauge_failed_fetch:
  "currentAirQualityGauge conv Undefined False = Inl TypeError \<and>
   effectiveAirQualityData e Undefined = fallbackAirQualityData e \<and>
   currentAirQualityGauge conv (effectiveAirQualityData e Undefined) False =
     Inr (Gauge ''bg-yellow-500'' (strokeDashoffset (Fin 85)) (Num (Fin 85))
            ''bg-yellow-100 text-yellow-800'' ''Moderate'')"
proof (intro conjI)
  show "currentAirQualityGauge conv Undefined False = Inl TypeError"
    by (simp add: currentAirQualityGauge_def read_current_aqi_def)
  show "effectiveAirQualityData e Undefined = fallbackAirQualityData e"
    by (rule effectiveAirQualityData_Undefined)
  show "currentAirQualityGauge conv (effectiveAirQualityData e Undefined) False =
     Inr (Gauge ''bg-yellow-500'' (strokeDashoffset (Fin 85)) (Num (Fin 85))
            ''bg-yellow-100 text-yellow-800'' ''Moderate'')"
    by (simp add: currentAirQualityGauge_def effectiveAirQualityData_Undefined
        fallback_current_aqi getAQICategory_def del: strokeDashoffset.simps)
qed

text \<open>
  C3. When the air-quality query has exhausted its retries and its data is absent, the
  handler has logged the failure and \<open>effectiveAirQualityData\<close> is the fallback snapshot,
  with \<open>current.aqi\<close> 85 and \<open>current.aqiCategory.label\<close> "Moderate". The card does not
  read that snapshot: it reads the absent query data, and its first read throws a
  TypeError, so the failed fetch ends the render.
\<close>

theorem failed_fetch_fallback_not_rendered:
  "airQuality_onError error console = console @ [[Str ''Air quality data fetch error:'', error]] \<and>
   effectiveAirQualityData e Undefined = fallbackAirQualityData e \<and>
   read_current_aqi (effectiveAirQualityData e Undefined) = Inr (Num (Fin 85)) \<and>
   bindE (get_prop (effectiveAirQualityData e Undefined) ''current'') (\<lambda>current.
     bindE (get_prop current ''aqiCategory'') (\<lambda>category. get_prop category ''label'')) =
     Inr (Str ''Moderate'') \<and>
   read_current_aqi Undefined = Inl TypeError \<and>
   currentAirQualityGauge conv Undefined False = Inl TypeError \<and>
   currentAirQualityGauge conv Undefined False \<noteq>
     currentAirQualityGauge conv (effectiveAirQualityData e Undefined) False"
proof (intro conjI)
  show "airQuality_onError error console =
      console @ [[Str ''Air quality data fetch error:'', error]]"
    by (simp add: airQuality_onError_def)
  show "effectiveAirQualityData e Undefined = fallbackAirQualityData e"
    by (rule effectiveAirQualityData_Undefined)
  show "read_current_aqi (effectiveAirQualityData e Undefined) = Inr (Num (Fin 85))"
    by (simp only: effectiveAirQualityData_Undefined fallback_current_aqi)
  show "bindE (get_prop (effectiveAirQualityData e Undefined) ''current'') (\<lambda>current.
     bindE (get_prop current ''aqiCategory'') (\<lambda>category. get_prop category ''label'')) =
     Inr (Str ''Moderate'')"
    by (simp add: effectiveAirQualityData_Undefined fallbackAirQualityData_def
        AqiCategory_obj_def getAQICategory_def)
  show "read_current_aqi Undefined = Inl TypeError"
    by (simp add: read_current_aqi_def)
  show thrown: "currentAirQualityGauge conv Undefined False = Inl TypeError"
    by (simp add: currentAirQualityGauge_def read_current_aqi_def)
  show "currentAirQualityGauge conv Undefined False \<noteq>
     currentAirQualityGauge conv (effectiveAirQualityData e Undefined) False"
    unfolding thrown
    by (simp add: currentAirQualityGauge_def effectiveAirQualityData_Undefined
        fallback_current_aqi)
qed

text \<open>
  C4. The pollen fallback is an object with the keys \<open>grass\<close>, \<open>tree\<close>, \<open>weed\<close> and
  \<open>mold\<close>, each holding a level and a category. It has no \<open>daily\<close> object, so its keys
  and nesting are not those of \<open>PollenData\<close>, and \<open>formatPollenData\<close> makes no chart
  point from it. The forecast fallback, built next to it, does have the keys and nesting
  of its interface.
\<close>

theorem fallbackPollenData_shape:
  "shape_of fallbackPollenData =
     Node [(''grass'', Node [(''level'', Leaf), (''category'', Leaf)]),
           (''tree'', Node [(''level'', Leaf), (''category'', Leaf)]),
           (''weed'', Node [(''level'', Leaf), (''category'', Leaf)]),
           (''mold'', Node [(''level'', Leaf), (''category'', Leaf)])] \<and>
   shape_of fallbackPollenData \<noteq> PollenData_shape \<and>
   get_prop fallbackPollenData ''daily'' = Inr Undefined \<and>
   effectivePollenData Undefined = fallbackPollenData \<and>
   formatPollenData weekday (effectivePollenData Undefined) = Inr [] \<and>
   shape_of (fallbackAqiForecastData e) = AqiForecastData_shape"
proof (intro conjI)
  show shape: "shape_of fallbackPollenData =
     Node [(''grass'', Node [(''level'', Leaf), (''category'', Leaf)]),
           (''tree'', Node [(''level'', Leaf), (''category'', Leaf)]),
           (''weed'', Node [(''level'', Leaf), (''category'', Leaf)]),
           (''mold'', Node [(''level'', Leaf), (''category'', Leaf)])]"
    by (simp add: fallbackPollenData_def)
  show "shape_of fallbackPollenData \<noteq> PollenData_shape"
    unfolding shape by (simp add: PollenData_shape_def)
  show daily: "get_prop fallbackPollenData ''daily'' = Inr Undefined"
    by (simp add: fallbackPollenData_def)
  show eff: "effectivePollenData Undefined = fallbackPollenData"
    by (simp add: effectivePollenData_def js_or_def)
  show "formatPollenData weekday (effectivePollenData Undefined) = Inr []"
    unfolding eff using daily by (intro formatPollenData_absent disjI2)
  show "shape_of (fallbackAqiForecastData e) = AqiForecastData_shape"
    by (simp add: fallbackAqiForecastData_def AqiForecastData_shape_def)
qed

section \<open>Properties of the fallback data generator\<close>










end
